theory Spec2Isabelle
  imports Complex_Main "HOL-Library.AList"
begin

section \<open>Run-length encoding of the per-primitive vertex counts\<close>

text \<open>
  \<^verbatim>\<open>_rle_encode_int\<close> (geoschema.py, l. 60-75). The loop over \<^verbatim>\<open>values[1:]\<close> carries
  \<^verbatim>\<open>current\<close>, \<^verbatim>\<open>run\<close> and the output list \<^verbatim>\<open>out\<close>; after the loop the last run is
  appended. Python integers are unbounded, hence \<^typ>\<open>int\<close>.
\<close>

fun rle_loop :: "int list \<Rightarrow> int \<Rightarrow> int \<Rightarrow> int list \<Rightarrow> int list" where
  "rle_loop [] current run out = out @ [current, run]"
| "rle_loop (v # vs) current run out =
     (if v = current then rle_loop vs current (run + 1) out
      else rle_loop vs v 1 (out @ [current, run]))"

definition rle_encode_int :: "int list \<Rightarrow> int list" where
  "rle_encode_int values =
     (case values of [] \<Rightarrow> [] | v0 # rest \<Rightarrow> rle_loop rest v0 1 [])"

text \<open>
  The decoder is not part of the repository (the exporter is write-only). It follows the
  specification's words: the flat sequence is read as consecutive (value, runLength) pairs
  and each value is repeated runLength times. A sequence of odd length or a negative run
  length is not an encoding.
\<close>

fun rle_decode :: "int list \<Rightarrow> int list option" where
  "rle_decode [] = Some []"
| "rle_decode [v] = None"
| "rle_decode (v # n # rest) =
     (if n < 0 then None
      else (case rle_decode rest of None \<Rightarrow> None
            | Some ys \<Rightarrow> Some (replicate (nat n) v @ ys)))"

section \<open>Python strings\<close>

text \<open>
  A Python \<^verbatim>\<open>str\<close> is modelled as a \<^typ>\<open>string\<close> whose characters are code points below 256.
  The text handed to \<^verbatim>\<open>_format_json_braces\<close> comes from \<^verbatim>\<open>json.dumps\<close> with its default
  \<^verbatim>\<open>ensure_ascii=True\<close> and is ASCII. The line boundaries of \<^verbatim>\<open>str.splitlines\<close> and the
  white space of \<^verbatim>\<open>str.rstrip\<close>/\<^verbatim>\<open>str.lstrip\<close> are those of CPython in that range.
\<close>

abbreviation nl :: string where
  "nl \<equiv> [CHR 0x0A]"

definition is_linebreak :: "char \<Rightarrow> bool" where
  "is_linebreak c =
     (c \<in> set [CHR 0x0A, CHR 0x0B, CHR 0x0C, CHR 0x0D, CHR 0x1C, CHR 0x1D, CHR 0x1E, CHR 0x85])"

definition is_space :: "char \<Rightarrow> bool" where
  "is_space c =
     (c \<in> set [CHR 0x09, CHR 0x0A, CHR 0x0B, CHR 0x0C, CHR 0x0D, CHR 0x1C, CHR 0x1D, CHR 0x1E,
                CHR 0x1F, CHR 0x20, CHR 0x85, CHR 0xA0])"

text \<open>\<^verbatim>\<open>str.splitlines()\<close>: a carriage return followed by a line feed is one boundary; a
  final boundary opens no further line; the empty text has no line.\<close>

fun splitlines_from :: "string \<Rightarrow> string \<Rightarrow> string list" where
  "splitlines_from cur [] = (if cur = [] then [] else [cur])"
| "splitlines_from cur [c] = (if is_linebreak c then [cur] else [cur @ [c]])"
| "splitlines_from cur (c # d # cs) =
     (if c = CHR 0x0D \<and> d = CHR 0x0A then cur # splitlines_from [] cs
      else if is_linebreak c then cur # splitlines_from [] (d # cs)
      else splitlines_from (cur @ [c]) (d # cs))"

definition splitlines :: "string \<Rightarrow> string list" where
  "splitlines text = splitlines_from [] text"

definition rstrip :: "string \<Rightarrow> string" where
  "rstrip s = rev (dropWhile is_space (rev s))"

definition lstrip :: "string \<Rightarrow> string" where
  "lstrip s = dropWhile is_space s"

definition endswith :: "string \<Rightarrow> string \<Rightarrow> bool" where
  "endswith s suf = (length suf \<le> length s \<and> drop (length s - length suf) s = suf)"

text \<open>\<^verbatim>\<open>str.lower()\<close> on the ASCII letters, which is where the format names live.\<close>

definition lower :: "string \<Rightarrow> string" where
  "lower s =
     map (\<lambda>c. case map_of (zip ''ABCDEFGHIJKLMNOPQRSTUVWXYZ'' ''abcdefghijklmnopqrstuvwxyz'') c of
                None \<Rightarrow> c | Some d \<Rightarrow> d) s"

fun py_join :: "string \<Rightarrow> string list \<Rightarrow> string" where
  "py_join sep [] = []"
| "py_join sep [x] = x"
| "py_join sep (x # y # ys) = x @ sep @ py_join sep (y # ys)"

text \<open>\<^verbatim>\<open>str(i)\<close> of a Python integer: decimal digits, a minus sign when negative.\<close>

fun digits_of :: "nat \<Rightarrow> string" where
  "digits_of n =
     (if n < 10 then [''0123456789'' ! n]
      else digits_of (n div 10) @ [''0123456789'' ! (n mod 10)])"

declare digits_of.simps [simp del]

definition str_int :: "int \<Rightarrow> string" where
  "str_int i = (if i < 0 then CHR ''-'' # digits_of (nat (- i)) else digits_of (nat i))"

section \<open>Brace reflow of the manifest text\<close>

text \<open>
  \<^verbatim>\<open>_format_json_braces\<close> (l. 78-89): the loop over the lines appends to \<^verbatim>\<open>out\<close>; the
  result is \<^verbatim>\<open>"\n".join(out) + "\n"\<close>. \<^verbatim>\<open>stripped[:-2]\<close> drops the last two characters of
  the right-stripped line, and \<^verbatim>\<open>indent\<close> is the white space \<^verbatim>\<open>lstrip\<close> would remove.
\<close>

fun reflow_loop :: "string list \<Rightarrow> string list \<Rightarrow> string list" where
  "reflow_loop [] out = out"
| "reflow_loop (line # lines) out =
     (let stripped = rstrip line in
      if endswith stripped '': {'' then
        (let indent = take (length line - length (lstrip line)) line in
         reflow_loop lines ((out @ [take (length stripped - 2) stripped]) @ [indent @ ''{'']))
      else reflow_loop lines (out @ [line]))"

definition format_json_braces :: "string \<Rightarrow> string" where
  "format_json_braces text = py_join nl (reflow_loop (splitlines text) []) @ nl"

text \<open>
  The normalization as the specification words it, line by line. \<open>reflow_line_claimed\<close>
  removes only the trailing brace; \<open>reflow_line\<close> removes the brace together with the space
  before it and the white space after it, which is what the code emits.
\<close>

definition reflow_line_claimed :: "string \<Rightarrow> string list" where
  "reflow_line_claimed line =
     (if endswith (rstrip line) '': {''
      then [butlast (rstrip line), take (length line - length (lstrip line)) line @ ''{'']
      else [line])"

definition reflow_line :: "string \<Rightarrow> string list" where
  "reflow_line line =
     (if endswith (rstrip line) '': {''
      then [take (length (rstrip line) - 2) (rstrip line),
            take (length line - length (lstrip line)) line @ ''{'']
      else [line])"

definition emit_lines :: "string list \<Rightarrow> string" where
  "emit_lines ls = concat (map (\<lambda>l. l @ nl) ls)"

section \<open>The host's data: attributes, elements, geometry\<close>

text \<open>
  The \<^verbatim>\<open>hou\<close> module is not part of the repository. Its objects are modelled by what the
  exporter reads of them. \<^verbatim>\<open>hou.attribData\<close> has the members Int, Float, String and Dict;
  \<^verbatim>\<open>hou.attribType\<close> has Point, Prim, Vertex and Global. A value returned by
  \<^verbatim>\<open>attribValue\<close> is a Python scalar or a tuple of them; a float is modelled by the real
  number it denotes.
\<close>

datatype attribData = AInt | AFloat | AString | ADict

datatype attribType = Point | Vertex | Prim | Global

datatype pyval = PInt int | PFloat real | PStr string | PTuple "pyval list"

record attrib =
  attrib_name :: string
  attrib_size :: nat
  attrib_dataType :: attribData

record vertex =
  vertex_number :: nat
  vertex_point_number :: int

record prim =
  prim_number :: nat
  prim_vertices :: "vertex list"

datatype elem = PointElem nat | VertexElem vertex | PrimElem prim | DetailElem

record geometry =
  geo_points :: "nat list"
  geo_prims :: "prim list"
  geo_pointAttribs :: "attrib list"
  geo_vertexAttribs :: "attrib list"
  geo_primAttribs :: "attrib list"
  geo_globalAttribs :: "attrib list"
  geo_attribValue :: "elem \<Rightarrow> string \<Rightarrow> pyval"
  geo_pointcount :: int
  geo_primitivecount :: int

record sop_node =
  node_path :: string
  node_geometry :: geometry

record hou_session =
  hou_frame :: real
  hou_hipFile_path :: string
  hou_applicationVersionString :: string

section \<open>Arrays, exported data, the manifest\<close>

datatype np_dtype = Int32 | Float32

datatype npscalar = NpInt int | NpFloat real

text \<open>A numpy array: element type, shape, and the elements in row-major order.\<close>

datatype ndarray = NDArray (dtype: np_dtype) (shape: "nat list") (data: "npscalar list")

text \<open>The pair \<^verbatim>\<open>(data, kind)\<close> returned by \<^verbatim>\<open>_export_attrib_array\<close>: kind \<^verbatim>\<open>"array"\<close> comes
  with a numpy array, kind \<^verbatim>\<open>"txt"\<close> with the list of the values of a string attribute.\<close>

datatype exported = Array_kind ndarray | Txt_kind "pyval list"


record attr_desc =
  desc_type :: string
  desc_size :: nat

text \<open>A dictionary of dictionaries keyed by folder name and attribute name, in insertion
  order (\<^verbatim>\<open>json.dumps\<close> and \<^verbatim>\<open>pickle\<close> keep it).\<close>

type_synonym 'v domain_dict = "(string \<times> (string \<times> 'v) list) list"

record meta =
  meta_name :: string
  meta_frame :: int
  meta_node :: string
  meta_hipFile :: string
  meta_houdini_version :: string
  meta_storage_format :: string
  meta_counts_points :: int
  meta_counts_primitives :: int
  meta_attributes :: "attr_desc domain_dict"

record single_obj =
  obj_domains :: "exported domain_dict"
  obj_metadata :: "meta option"

datatype error =
    UnsupportedRank nat
  | UnsupportedFormat string
  | UnsupportedAttribType attribData
  | NumpyError
  | KeyError string

text \<open>
  The first three errors are the \<^verbatim>\<open>RuntimeError\<close>s the source raises (l. 39, l. 57 and 177,
  l. 100), told apart by their messages. \<open>NumpyError\<close> stands for an exception raised inside
  \<^verbatim>\<open>np.asarray\<close> or \<^verbatim>\<open>reshape\<close>; \<open>KeyError\<close> for a missing dictionary key.
\<close>

text \<open>
  What the libraries do to a single value is a parameter of the model: the conversion of a
  Python scalar to an array element (\<open>None\<close> when numpy raises), the text of a float, the
  text of a Python value that is not a string or an integer, and \<^verbatim>\<open>json.dumps(meta, indent=4)\<close>.
\<close>

record env =
  np_cast :: "np_dtype \<Rightarrow> pyval \<Rightarrow> npscalar option"
  np_float_str :: "real \<Rightarrow> string"
  py_str :: "pyval \<Rightarrow> string"
  json_dumps :: "meta \<Rightarrow> string"

definition np_convert :: "env \<Rightarrow> np_dtype \<Rightarrow> pyval \<Rightarrow> npscalar option" where
  "np_convert e dt v =
     (case (dt, v) of
        (Int32, PInt i) \<Rightarrow>
          (if - (2 ^ 31) \<le> i \<and> i < 2 ^ 31 then Some (NpInt i) else np_cast e dt v)
      | _ \<Rightarrow> np_cast e dt v)"

definition np_str :: "env \<Rightarrow> npscalar \<Rightarrow> string" where
  "np_str e x = (case x of NpInt i \<Rightarrow> str_int i | NpFloat r \<Rightarrow> np_float_str e r)"

definition str_of :: "env \<Rightarrow> pyval \<Rightarrow> string" where
  "str_of e v = (case v of PStr s \<Rightarrow> s | PInt i \<Rightarrow> str_int i | _ \<Rightarrow> py_str e v)"

text \<open>\<^verbatim>\<open>int(x)\<close> of a float truncates towards zero.\<close>

definition py_int :: "real \<Rightarrow> int" where
  "py_int x = (if 0 \<le> x then \<lfloor>x\<rfloor> else \<lceil>x\<rceil>)"

subsection \<open>\<^verbatim>\<open>np.asarray\<close> and \<^verbatim>\<open>reshape\<close>\<close>

text \<open>The shape numpy finds for a nested sequence; \<open>None\<close> when the nesting is ragged
  (numpy raises \<^verbatim>\<open>ValueError\<close> when a dtype is given).\<close>

fun shape_of :: "pyval \<Rightarrow> nat list option" where
  "shape_of (PTuple xs) =
     (case map shape_of xs of
        [] \<Rightarrow> Some [0]
      | s # ss \<Rightarrow>
          (case s of None \<Rightarrow> None
           | Some sh \<Rightarrow> if list_all (\<lambda>t. t = Some sh) ss then Some (length xs # sh) else None))"
| "shape_of (PInt i) = Some []"
| "shape_of (PFloat r) = Some []"
| "shape_of (PStr s) = Some []"

fun leaves :: "pyval \<Rightarrow> pyval list" where
  "leaves (PTuple xs) = concat (map leaves xs)"
| "leaves (PInt i) = [PInt i]"
| "leaves (PFloat r) = [PFloat r]"
| "leaves (PStr s) = [PStr s]"

definition np_asarray :: "env \<Rightarrow> np_dtype \<Rightarrow> pyval list \<Rightarrow> error + ndarray" where
  "np_asarray e dt values =
     (case shape_of (PTuple values) of
        None \<Rightarrow> Inl NumpyError
      | Some sh \<Rightarrow>
          (case those (map (np_convert e dt) (leaves (PTuple values))) of
             None \<Rightarrow> Inl NumpyError
           | Some d \<Rightarrow> Inr (NDArray dt sh d)))"

text \<open>\<^verbatim>\<open>arr.reshape(n, k)\<close>: the element count must stay the same.\<close>

definition reshape2 :: "ndarray \<Rightarrow> nat \<Rightarrow> nat \<Rightarrow> error + ndarray" where
  "reshape2 arr n k =
     (if prod_list (shape arr) = n * k then Inr (NDArray (dtype arr) [n, k] (data arr))
      else Inl NumpyError)"


section \<open>Paths and the file system\<close>

text \<open>
  A \<^verbatim>\<open>pathlib.Path\<close> is the list of its components. A string joined to a path with
  \<^verbatim>\<open>/\<close> is taken as one component: the caller's name and the attribute names hold no
  separator and are not empty. \<^verbatim>\<open>with_suffix\<close> follows CPython 3.10 to 3.13: the suffix of a
  name starts at its last dot, unless that dot is the first or the last character.
\<close>

type_synonym path = "string list"

definition pjoin :: "path \<Rightarrow> string \<Rightarrow> path" where
  "pjoin p s = p @ [s]"

definition path_name :: "path \<Rightarrow> string" where
  "path_name p = (case rev p of [] \<Rightarrow> [] | n # _ \<Rightarrow> n)"

definition suffix_of :: "string \<Rightarrow> string" where
  "suffix_of name =
     (let k = length (takeWhile (\<lambda>c. c \<noteq> CHR ''.'') (rev name)) in
      if k < length name \<and> 0 < length name - 1 - k \<and> 0 < k
      then drop (length name - 1 - k) name else [])"

definition name_with_suffix :: "string \<Rightarrow> string \<Rightarrow> string" where
  "name_with_suffix name suf =
     (let old_suffix = suffix_of name in
      if old_suffix = [] then name @ suf
      else take (length name - length old_suffix) name @ suf)"

text \<open>A path without a name makes \<^verbatim>\<open>with_suffix\<close> raise; every path of the exporter has
  one, so that case returns the path as it is.\<close>

definition with_suffix :: "path \<Rightarrow> string \<Rightarrow> path" where
  "with_suffix p suf =
     (case rev p of [] \<Rightarrow> p | n # ps \<Rightarrow> rev ps @ [name_with_suffix n suf])"

text \<open>What a file holds: text, a \<^verbatim>\<open>.npy\<close> array (\<^verbatim>\<open>np.save\<close>), a pickled array, or the
  pickled object of the single-archive layout.\<close>

datatype file_content =
    Text string
  | Npy ndarray
  | PickleArr ndarray
  | PickleObj single_obj

text \<open>The file system: the directories and the files, each file with its content. Every
  operation of the operating system succeeds (no permission or disk error is modelled).\<close>

record fs =
  fs_dirs :: "path list"
  fs_files :: "(path \<times> file_content) list"

text \<open>\<^verbatim>\<open>_ensure_dir\<close> (l. 18-19): \<^verbatim>\<open>mkdir(parents=True, exist_ok=True)\<close> creates the directory
  and every missing ancestor.\<close>

definition ensure_dir :: "path \<Rightarrow> fs \<Rightarrow> fs" where
  "ensure_dir p f =
     f\<lparr>fs_dirs := fold List.insert (map (\<lambda>k. take k p) [1..<Suc (length p)]) (fs_dirs f)\<rparr>"

text \<open>\<^verbatim>\<open>open(path, "w")\<close> followed by the writes: the file is created or replaced.\<close>

definition write_file :: "path \<Rightarrow> file_content \<Rightarrow> fs \<Rightarrow> fs" where
  "write_file p c f = f\<lparr>fs_files := AList.update p c (fs_files f)\<rparr>"

definition read_file :: "fs \<Rightarrow> path \<Rightarrow> file_content option" where
  "read_file f p = map_of (fs_files f) p"

text \<open>A loop of \<^verbatim>\<open>f.write\<close> calls: each one appends to what the file holds so far.\<close>

fun write_each :: "('a \<Rightarrow> string) \<Rightarrow> 'a list \<Rightarrow> string \<Rightarrow> string" where
  "write_each g [] buf = buf"
| "write_each g (x # xs) buf = write_each g xs (buf @ g x)"

section \<open>The serializers\<close>

text \<open>Iterating over a rank-2 array gives its rows.\<close>

definition rows :: "ndarray \<Rightarrow> npscalar list list" where
  "rows arr =
     map (\<lambda>i. take (shape arr ! 1) (drop (i * (shape arr ! 1)) (data arr))) [0..<shape arr ! 0]"

text \<open>\<^verbatim>\<open>_save_ascii\<close> (l. 22-41). The file is opened before the rank is looked at, so the
  failing branch leaves an empty file behind.\<close>

definition save_ascii :: "env \<Rightarrow> path \<Rightarrow> ndarray option \<Rightarrow> fs \<Rightarrow> (error + unit) \<times> fs" where
  "save_ascii e p arr_opt f =
     (case arr_opt of
        None \<Rightarrow> (Inr (), f)
      | Some arr \<Rightarrow>
          (let ndim = length (shape arr) in
           if ndim = 1 then
             (Inr (), write_file p (Text (write_each (\<lambda>v. np_str e v @ nl) (data arr) [])) f)
           else if ndim = 2 then
             (Inr (), write_file p
                (Text (write_each (\<lambda>row. py_join '' '' (map (np_str e) row) @ nl) (rows arr) [])) f)
           else (Inl (UnsupportedRank ndim), write_file p (Text []) f)))"

text \<open>\<^verbatim>\<open>_save_array\<close> (l. 44-57).\<close>

definition save_array :: "env \<Rightarrow> path \<Rightarrow> ndarray option \<Rightarrow> string \<Rightarrow> fs \<Rightarrow> (error + unit) \<times> fs" where
  "save_array e path_base arr_opt fmt f =
     (case arr_opt of
        None \<Rightarrow> (Inr (), f)
      | Some arr \<Rightarrow>
          if fmt = ''ascii'' then save_ascii e (with_suffix path_base ''.txt'') (Some arr) f
          else if fmt = ''npy'' \<or> fmt = ''binary'' then
            (Inr (), write_file (with_suffix path_base ''.npy'') (Npy arr) f)
          else if fmt = ''pickle'' then
            (Inr (), write_file (with_suffix path_base ''.pkl'') (PickleArr arr) f)
          else (Inl (UnsupportedFormat fmt), f))"

section \<open>Attribute export\<close>

text \<open>\<^verbatim>\<open>_attrib_dtype\<close> (l. 92-100): \<open>None\<close> for a string attribute, an error for a type
  that is not Int, Float or String.\<close>

definition attrib_dtype :: "attrib \<Rightarrow> error + np_dtype option" where
  "attrib_dtype a =
     (let t = attrib_dataType a in
      if t = AInt then Inr (Some Int32)
      else if t = AFloat then Inr (Some Float32)
      else if t = AString then Inr None
      else Inl (UnsupportedAttribType t))"

text \<open>\<^verbatim>\<open>_attrib_type_str\<close> (l. 103-111).\<close>

definition attrib_type_str :: "attrib \<Rightarrow> string" where
  "attrib_type_str a =
     (let t = attrib_dataType a in
      if t = AInt then ''int''
      else if t = AFloat then ''float''
      else if t = AString then ''string''
      else ''attribData.Dict'')"

text \<open>\<^verbatim>\<open>_get_attribs\<close> (l. 114-124); the four members of \<^verbatim>\<open>hou.attribType\<close> leave nothing
  for the final \<^verbatim>\<open>else\<close>.\<close>

definition get_attribs :: "geometry \<Rightarrow> attribType \<Rightarrow> attrib list" where
  "get_attribs geo atype =
     (case atype of
        Point \<Rightarrow> geo_pointAttribs geo
      | Vertex \<Rightarrow> geo_vertexAttribs geo
      | Prim \<Rightarrow> geo_primAttribs geo
      | Global \<Rightarrow> geo_globalAttribs geo)"

text \<open>\<^verbatim>\<open>_export_attrib_array\<close> (l. 131-149). \<^verbatim>\<open>_attrib_dtype\<close> cannot return \<open>None\<close> here,
  the string attribute having returned two lines above.\<close>

definition export_attrib_array :: "env \<Rightarrow> geometry \<Rightarrow> elem list \<Rightarrow> attrib \<Rightarrow> error + exported" where
  "export_attrib_array e geo elems a =
     (let name = attrib_name a; size = attrib_size a in
      if attrib_dataType a = AString
      then Inr (Txt_kind (map (\<lambda>el. geo_attribValue geo el name) elems))
      else
        (case attrib_dtype a of
           Inl err \<Rightarrow> Inl err
         | Inr None \<Rightarrow> Inl NumpyError
         | Inr (Some dt) \<Rightarrow>
             (let values = map (\<lambda>el. geo_attribValue geo el name) elems in
              case np_asarray e dt values of
                Inl err \<Rightarrow> Inl err
              | Inr arr \<Rightarrow>
                  if 1 < size then
                    (case reshape2 arr (length values) size of
                       Inl err \<Rightarrow> Inl err
                     | Inr arr2 \<Rightarrow> Inr (Array_kind arr2))
                  else Inr (Array_kind arr))))"


section \<open>The exporter\<close>

text \<open>The mutable objects of \<^verbatim>\<open>export_geo_schema\<close>: the file system, and the dictionaries
  \<^verbatim>\<open>single_obj\<close> and \<^verbatim>\<open>attrib_meta\<close>.\<close>

record export_state =
  st_fs :: fs
  st_single_obj :: "exported domain_dict"
  st_attrib_meta :: "attr_desc domain_dict"

text \<open>\<^verbatim>\<open>d[k][n] = v\<close> on a dictionary of dictionaries.\<close>

definition dict_set2 :: "string \<Rightarrow> string \<Rightarrow> 'v \<Rightarrow> 'v domain_dict \<Rightarrow> error + 'v domain_dict" where
  "dict_set2 k n v d =
     (case map_of d k of
        None \<Rightarrow> Inl (KeyError k)
      | Some inner \<Rightarrow> Inr (AList.update k (AList.update n v inner) d))"

text \<open>Sequencing of two steps on the file system: an exception of the first skips the
  second.\<close>

definition and_then ::
  "(error + unit) \<times> fs \<Rightarrow> (fs \<Rightarrow> (error + unit) \<times> fs) \<Rightarrow> (error + unit) \<times> fs" where
  "and_then r k = (case r of (Inl err, f) \<Rightarrow> (Inl err, f) | (Inr u, f) \<Rightarrow> k f)"

text \<open>The body of the loop over the attributes of one domain (l. 235-255). The test
  \<^verbatim>\<open>kind == "array"\<close> is the case distinction on the exported data.\<close>

definition export_attrib ::
  "env \<Rightarrow> geometry \<Rightarrow> string \<Rightarrow> bool \<Rightarrow> path \<Rightarrow> elem list \<Rightarrow> attrib \<Rightarrow> export_state
     \<Rightarrow> (error + unit) \<times> export_state" where
  "export_attrib e geo fmt single folder elems a st =
     (let name_attr = attrib_name a in
      case export_attrib_array e geo elems a of
        Inl err \<Rightarrow> (Inl err, st)
      | Inr d \<Rightarrow>
          (let folder_name = path_name folder in
           case dict_set2 folder_name name_attr d (st_single_obj st) of
             Inl err \<Rightarrow> (Inl err, st)
           | Inr so \<Rightarrow>
               (let st1 = st\<lparr>st_single_obj := so\<rparr>;
                    written =
                      (if \<not> single then
                         (let path_base = pjoin folder name_attr in
                          case d of
                            Array_kind arr \<Rightarrow> save_array e path_base (Some arr) fmt (st_fs st1)
                          | Txt_kind vs \<Rightarrow>
                              (Inr (), write_file (with_suffix path_base ''.txt'')
                                 (Text (write_each (\<lambda>v. str_of e v @ nl) vs [])) (st_fs st1)))
                       else (Inr (), st_fs st1));
                    st2 = st1\<lparr>st_fs := snd written\<rparr>
                in case fst written of
                     Inl err \<Rightarrow> (Inl err, st2)
                   | Inr u \<Rightarrow>
                       (case dict_set2 folder_name name_attr
                               \<lparr>desc_type = attrib_type_str a, desc_size = attrib_size a\<rparr>
                               (st_attrib_meta st2) of
                          Inl err \<Rightarrow> (Inl err, st2)
                        | Inr am \<Rightarrow> (Inr (), st2\<lparr>st_attrib_meta := am\<rparr>)))))"

fun export_attribs ::
  "env \<Rightarrow> geometry \<Rightarrow> string \<Rightarrow> bool \<Rightarrow> path \<Rightarrow> elem list \<Rightarrow> attrib list \<Rightarrow> export_state
     \<Rightarrow> (error + unit) \<times> export_state" where
  "export_attribs e geo fmt single folder elems [] st = (Inr (), st)"
| "export_attribs e geo fmt single folder elems (a # as) st =
     (case export_attrib e geo fmt single folder elems a st of
        (Inl err, st1) \<Rightarrow> (Inl err, st1)
      | (Inr u, st1) \<Rightarrow> export_attribs e geo fmt single folder elems as st1)"

text \<open>The elements of a domain (l. 224-233).\<close>

definition domain_elems :: "geometry \<Rightarrow> vertex list \<Rightarrow> attribType \<Rightarrow> elem list" where
  "domain_elems geo vertices atype =
     (case atype of
        Point \<Rightarrow> map PointElem (geo_points geo)
      | Vertex \<Rightarrow> map VertexElem vertices
      | Prim \<Rightarrow> map PrimElem (geo_prims geo)
      | Global \<Rightarrow> [DetailElem])"

text \<open>The loop over \<^verbatim>\<open>dirs.items()\<close> (l. 221-255), in the insertion order of \<^verbatim>\<open>dirs\<close>.\<close>

fun export_domains ::
  "env \<Rightarrow> geometry \<Rightarrow> string \<Rightarrow> bool \<Rightarrow> vertex list \<Rightarrow> (attribType \<times> path) list \<Rightarrow> export_state
     \<Rightarrow> (error + unit) \<times> export_state" where
  "export_domains e geo fmt single vertices [] st = (Inr (), st)"
| "export_domains e geo fmt single vertices ((atype, folder) # ds) st =
     (case export_attribs e geo fmt single folder (domain_elems geo vertices atype)
             (get_attribs geo atype) st of
        (Inl err, st1) \<Rightarrow> (Inl err, st1)
      | (Inr u, st1) \<Rightarrow> export_domains e geo fmt single vertices ds st1)"

text \<open>The topology (l. 261-277): the point of every vertex, the vertex count of every
  primitive, and its run-length encoding, as three entries of the Vertex domain.\<close>

definition export_topology ::
  "env \<Rightarrow> string \<Rightarrow> bool \<Rightarrow> vertex list \<Rightarrow> prim list \<Rightarrow> path \<Rightarrow> export_state
     \<Rightarrow> (error + unit) \<times> export_state" where
  "export_topology e fmt single vertices prims vertex_dir st =
     (let prim_vertex_counts = map (\<lambda>p. int (length (prim_vertices p))) prims in
      case np_asarray e Int32 (map (\<lambda>v. PInt (vertex_point_number v)) vertices) of
        Inl err \<Rightarrow> (Inl err, st)
      | Inr vertex_point_indices \<Rightarrow>
     (case np_asarray e Int32 (map PInt prim_vertex_counts) of
        Inl err \<Rightarrow> (Inl err, st)
      | Inr vertexcount \<Rightarrow>
     (case np_asarray e Int32 (map PInt (rle_encode_int prim_vertex_counts)) of
        Inl err \<Rightarrow> (Inl err, st)
      | Inr nvertices_rle \<Rightarrow>
     (case dict_set2 ''Vertex'' ''pointref'' (Array_kind vertex_point_indices)
             (st_single_obj st) of
        Inl err \<Rightarrow> (Inl err, st)
      | Inr so1 \<Rightarrow>
     (case dict_set2 ''Vertex'' ''vertexcount'' (Array_kind vertexcount) so1 of
        Inl err \<Rightarrow> (Inl err, st\<lparr>st_single_obj := so1\<rparr>)
      | Inr so2 \<Rightarrow>
     (case dict_set2 ''Vertex'' ''nvertices_rle'' (Array_kind nvertices_rle) so2 of
        Inl err \<Rightarrow> (Inl err, st\<lparr>st_single_obj := so2\<rparr>)
      | Inr so3 \<Rightarrow>
          (let st1 = st\<lparr>st_single_obj := so3\<rparr> in
           if \<not> single then
             (let written =
                and_then (save_array e (pjoin vertex_dir ''pointref'')
                            (Some vertex_point_indices) fmt (st_fs st1))
                  (\<lambda>f1. and_then (save_array e (pjoin vertex_dir ''vertexcount'')
                                    (Some vertexcount) fmt f1)
                  (\<lambda>f2. save_array e (pjoin vertex_dir ''nvertices_rle'')
                          (Some nvertices_rle) fmt f2))
              in (fst written, st1\<lparr>st_fs := snd written\<rparr>))
           else (Inr (), st1))))))))"

text \<open>The manifest (l. 282-299).\<close>

definition build_meta ::
  "hou_session \<Rightarrow> sop_node \<Rightarrow> string \<Rightarrow> int \<Rightarrow> string \<Rightarrow> attr_desc domain_dict \<Rightarrow> meta" where
  "build_meta hou node name frame fmt attrib_meta =
     \<lparr>meta_name = name,
      meta_frame = frame,
      meta_node = node_path node,
      meta_hipFile = hou_hipFile_path hou,
      meta_houdini_version = hou_applicationVersionString hou,
      meta_storage_format = fmt,
      meta_counts_points = geo_pointcount (node_geometry node),
      meta_counts_primitives = geo_primitivecount (node_geometry node),
      meta_attributes = attrib_meta\<rparr>"

text \<open>The end of the export (l. 301-314): the pickled archive beside the root, or the
  manifest inside the root directory.\<close>

definition export_finish :: "env \<Rightarrow> bool \<Rightarrow> path \<Rightarrow> meta \<Rightarrow> export_state \<Rightarrow> path \<times> fs" where
  "export_finish e single rootp m st =
     (if single then
        (let out_path = with_suffix rootp ''.pkl'' in
         (out_path,
          write_file out_path
            (PickleObj \<lparr>obj_domains = st_single_obj st, obj_metadata = Some m\<rparr>) (st_fs st)))
      else
        (rootp,
         write_file (pjoin rootp ''metadata.json'')
           (Text (format_json_braces (json_dumps e m))) (st_fs st)))"

text \<open>The frame and the format as resolved at l. 170-175.\<close>

definition resolve_frame :: "hou_session \<Rightarrow> int option \<Rightarrow> int" where
  "resolve_frame hou frame = (case frame of None \<Rightarrow> py_int (hou_frame hou) | Some fr \<Rightarrow> fr)"

definition resolve_format :: "string option \<Rightarrow> string" where
  "resolve_format format =
     (let fmt = (case format of None \<Rightarrow> ''npy'' | Some s \<Rightarrow> lower s)
      in if fmt = ''binary'' then ''npy'' else fmt)"

definition supported_formats :: "string list" where
  "supported_formats = [''ascii'', ''npy'', ''pickle'', ''single'']"

definition domain_dirs :: "path \<Rightarrow> (attribType \<times> path) list" where
  "domain_dirs rootp =
     [(Point, pjoin rootp ''Point''), (Vertex, pjoin rootp ''Vertex''),
      (Prim, pjoin rootp ''Primitive''), (Global, pjoin rootp ''Detail'')]"

definition empty_domains :: "'v domain_dict" where
  "empty_domains = [(''Point'', []), (''Vertex'', []), (''Primitive'', []), (''Detail'', [])]"

text \<open>The output root (l. 185-186) and the directories made for the chosen layout
  (l. 195-199), with the empty \<^verbatim>\<open>single_obj\<close> and \<^verbatim>\<open>attrib_meta\<close> (l. 207-219).\<close>

definition export_root :: "path \<Rightarrow> string \<Rightarrow> int \<Rightarrow> path" where
  "export_root out_root name frame = pjoin out_root (name @ ''_F'' @ str_int frame)"

definition init_state :: "bool \<Rightarrow> path \<Rightarrow> path \<Rightarrow> fs \<Rightarrow> export_state" where
  "init_state single out_root rootp f =
     \<lparr>st_fs = (if single then ensure_dir out_root f
               else fold (\<lambda>d. ensure_dir (snd d)) (domain_dirs rootp) f),
      st_single_obj = empty_domains,
      st_attrib_meta = empty_domains\<rparr>"

definition all_vertices :: "geometry \<Rightarrow> vertex list" where
  "all_vertices geo = concat (map prim_vertices (geo_prims geo))"

text \<open>\<^verbatim>\<open>export_geo_schema\<close> (l. 156-314). The result is the returned path or the exception
  raised, together with the file system as the call leaves it.\<close>

definition export_geo_schema ::
  "env \<Rightarrow> hou_session \<Rightarrow> sop_node \<Rightarrow> path \<Rightarrow> string \<Rightarrow> int option \<Rightarrow> string option \<Rightarrow> fs
     \<Rightarrow> (error + path) \<times> fs" where
  "export_geo_schema e hou node out_root name frame format f =
     (let frame1 = resolve_frame hou frame;
          fmt = resolve_format format
      in if fmt \<notin> set supported_formats then (Inl (UnsupportedFormat fmt), f)
         else
           (let single = (fmt = ''single'');
                geo = node_geometry node;
                rootp = export_root out_root name frame1;
                dirs = domain_dirs rootp;
                st0 = init_state single out_root rootp f;
                prims = geo_prims geo;
                vertices = all_vertices geo
            in case export_domains e geo fmt single vertices dirs st0 of
                 (Inl err, st1) \<Rightarrow> (Inl err, st_fs st1)
               | (Inr u, st1) \<Rightarrow>
                   (case export_topology e fmt single vertices prims
                           (pjoin rootp ''Vertex'') st1 of
                      (Inl err, st2) \<Rightarrow> (Inl err, st_fs st2)
                    | (Inr u, st2) \<Rightarrow>
                        (let m = build_meta hou node name frame1 fmt (st_attrib_meta st2);
                             res = export_finish e single rootp m st2
                         in (Inr (fst res), snd res)))))"

section \<open>The contract of the value accessor\<close>

text \<open>
  The data model gives every attribute a tuple width \<open>w\<close> of at least 1, and
  \<^verbatim>\<open>attribValue\<close> returns a scalar when \<open>w = 1\<close> and a tuple of \<open>w\<close> scalars otherwise.
  \<open>value_ok\<close> says so of one value, together with the fact that numpy accepts each scalar
  for the element type. \<open>int32\<close> is the range of \<^verbatim>\<open>np.int32\<close>.
\<close>

definition is_scalar :: "pyval \<Rightarrow> bool" where
  "is_scalar v = (case v of PTuple xs \<Rightarrow> False | _ \<Rightarrow> True)"

definition scalar_ok :: "env \<Rightarrow> np_dtype \<Rightarrow> pyval \<Rightarrow> bool" where
  "scalar_ok e dt v = (is_scalar v \<and> np_convert e dt v \<noteq> None)"

definition value_ok :: "env \<Rightarrow> np_dtype \<Rightarrow> nat \<Rightarrow> pyval \<Rightarrow> bool" where
  "value_ok e dt w v =
     (if w = 1 then scalar_ok e dt v
      else (case v of PTuple xs \<Rightarrow> length xs = w \<and> list_all (scalar_ok e dt) xs | _ \<Rightarrow> False))"

definition int32 :: "int \<Rightarrow> bool" where
  "int32 i = (- (2 ^ 31) \<le> i \<and> i < 2 ^ 31)"

section \<open>A concrete export\<close>

text \<open>
  The scene of the specification's first scenario, four points and one quadrilateral, with
  a float attribute of width 3 and a string attribute on the points, an integer attribute
  on the primitive; a second geometry adds an integer and a dictionary attribute on the detail. The
  library parameters are fixed to simple functions.
\<close>

definition env0 :: env where
  "env0 =
     \<lparr>np_cast = (\<lambda>dt v. case (dt, v) of (Float32, PFloat r) \<Rightarrow> Some (NpFloat r) | _ \<Rightarrow> None),
      np_float_str = (\<lambda>r. str_int \<lfloor>r\<rfloor> @ ''.0''),
      py_str = (\<lambda>v. ''?''),
      json_dumps = (\<lambda>m. ''{'' @ nl @ ''    \"frame\": '' @ str_int (meta_frame m) @ '','' @ nl
                          @ ''    \"storage\": {'' @ nl
                          @ ''        \"format\": \"'' @ meta_storage_format m @ ''\"'' @ nl
                          @ ''    }'' @ nl @ ''}'')\<rparr>"

definition quad :: prim where
  "quad =
     \<lparr>prim_number = 0,
      prim_vertices =
        [\<lparr>vertex_number = 0, vertex_point_number = 0\<rparr>,
         \<lparr>vertex_number = 1, vertex_point_number = 1\<rparr>,
         \<lparr>vertex_number = 2, vertex_point_number = 2\<rparr>,
         \<lparr>vertex_number = 3, vertex_point_number = 3\<rparr>]\<rparr>"

definition position_attrib :: attrib where
  "position_attrib = \<lparr>attrib_name = ''P'', attrib_size = 3, attrib_dataType = AFloat\<rparr>"

definition label_attrib :: attrib where
  "label_attrib = \<lparr>attrib_name = ''label'', attrib_size = 1, attrib_dataType = AString\<rparr>"

definition id_attrib :: attrib where
  "id_attrib = \<lparr>attrib_name = ''id'', attrib_size = 1, attrib_dataType = AInt\<rparr>"

definition dict_attrib :: attrib where
  "dict_attrib = \<lparr>attrib_name = ''props'', attrib_size = 1, attrib_dataType = ADict\<rparr>"

definition quad_values :: "elem \<Rightarrow> string \<Rightarrow> pyval" where
  "quad_values el name =
     (case el of
        PointElem n \<Rightarrow>
          if name = ''P'' then PTuple [PFloat (of_nat n), PFloat 0, PFloat 1]
          else PStr (''pt'' @ str_int (int n))
      | PrimElem p \<Rightarrow> PInt 7
      | _ \<Rightarrow> PInt 0)"

definition geo0 :: geometry where
  "geo0 =
     \<lparr>geo_points = [0, 1, 2, 3],
      geo_prims = [quad],
      geo_pointAttribs = [position_attrib, label_attrib],
      geo_vertexAttribs = [],
      geo_primAttribs = [id_attrib],
      geo_globalAttribs = [],
      geo_attribValue = quad_values,
      geo_pointcount = 4,
      geo_primitivecount = 1\<rparr>"

definition geo1 :: geometry where
  "geo1 = geo0\<lparr>geo_globalAttribs := [id_attrib, dict_attrib]\<rparr>"

definition node0 :: sop_node where
  "node0 = \<lparr>node_path = ''/obj/geo1/OUT'', node_geometry = geo0\<rparr>"

definition node1 :: sop_node where
  "node1 = \<lparr>node_path = ''/obj/geo1/OUT'', node_geometry = geo1\<rparr>"

definition hou0 :: hou_session where
  "hou0 =
     \<lparr>hou_frame = 5 / 2,
      hou_hipFile_path = ''/tmp/scene.hip'',
      hou_applicationVersionString = ''20.0.547''\<rparr>"

definition fs0 :: fs where
  "fs0 = \<lparr>fs_dirs = [], fs_files = []\<rparr>"

definition manifest_sample :: string where
  "manifest_sample =
     ''{'' @ nl @ ''    \"name\": \"quad\",'' @ nl @ ''    \"storage\": {  '' @ nl
     @ ''        \"format\": \"npy\"'' @ nl @ ''    },'' @ nl @ ''    \"attributes\": {'' @ nl
     @ ''        \"Point\": {},'' @ nl @ ''    }'' @ nl @ ''}''"

text \<open>A third geometry: an integer attribute of declared width 1 on the detail whose
  accessor returns a pair, as the accessor of an array attribute does.\<close>

definition pair_attrib :: attrib where
  "pair_attrib = \<lparr>attrib_name = ''ids'', attrib_size = 1, attrib_dataType = AInt\<rparr>"

definition geo2 :: geometry where
  "geo2 =
     geo0\<lparr>geo_globalAttribs := [pair_attrib],
          geo_attribValue := (\<lambda>el name. PTuple [PInt 1, PInt 2])\<rparr>"

section \<open>Run-length encoding: the round trip\<close>

lemma rle_decode_append_pair:
  "rle_decode out = Some ys \<Longrightarrow> 0 \<le> n \<Longrightarrow>
   rle_decode (out @ [v, n]) = Some (ys @ replicate (nat n) v)"
  by (induction out arbitrary: ys rule: rle_decode.induct)
     (auto split: if_splits option.splits)

lemma rle_decode_loop:
  "rle_decode out = Some ys \<Longrightarrow> 0 \<le> run \<Longrightarrow>
   rle_decode (rle_loop vs current run out) = Some (ys @ replicate (nat run) current @ vs)"
proof (induction vs arbitrary: current run out ys)
  case Nil
  then show ?case by (simp add: rle_decode_append_pair)
next
  case (Cons v vs)
  show ?case
  proof (cases "v = current")
    case True
    have "replicate (nat (run + 1)) current = replicate (nat run) current @ [current]"
      using Cons.prems(2) by (simp add: nat_add_distrib replicate_append_same)
    then show ?thesis
      using True Cons.IH [OF Cons.prems(1), of "run + 1" current] Cons.prems(2) by simp
  next
    case False
    have "rle_decode (out @ [current, run]) = Some (ys @ replicate (nat run) current)"
      using Cons.prems by (rule rle_decode_append_pair)
    from Cons.IH [OF this, of 1 v] False show ?thesis by simp
  qed
qed

text \<open>
  Claim C1. For every finite sequence of integers, empty, constant or all distinct,
  reading the output of \<^verbatim>\<open>_rle_encode_int\<close> as (value, runLength) pairs and expanding
  every pair gives back the sequence that was encoded.
\<close>

theorem rle_roundtrip: "rle_decode (rle_encode_int values) = Some values"
proof (cases "values")
  case Nil
  then show ?thesis by (simp add: rle_encode_int_def)
next
  case (Cons v0 rest)
  have "rle_decode (rle_loop rest v0 1 []) = Some ([] @ replicate (nat 1) v0 @ rest)"
    by (rule rle_decode_loop) simp_all
  then show ?thesis using Cons by (simp add: rle_encode_int_def)
qed

theorem rle_roundtrip_witness:
  "rle_decode (rle_encode_int [4, 4, 3, 4, 4, 4]) = Some [4, 4, 3, 4, 4, 4]
   \<and> rle_encode_int [4, 4, 3, 4, 4, 4] = [4, 2, 3, 1, 4, 3]
   \<and> rle_decode (rle_encode_int []) = Some []"
  using rle_roundtrip [of "[4, 4, 3, 4, 4, 4]"] rle_roundtrip [of "[]"]
  by (simp add: rle_encode_int_def)

section \<open>The brace reflow, line by line\<close>

lemma reflow_loop_acc: "reflow_loop ls out = out @ concat (map reflow_line ls)"
  by (induction ls arbitrary: out) (simp_all add: reflow_line_def Let_def)

lemma py_join_sep:
  "ls \<noteq> [] \<Longrightarrow> py_join sep ls @ sep = concat (map (\<lambda>l. l @ sep) ls)"
  by (induction sep ls rule: py_join.induct) simp_all

lemma py_join_nl: "ls \<noteq> [] \<Longrightarrow> py_join nl ls @ nl = emit_lines ls"
  by (simp add: py_join_sep emit_lines_def)

lemma reflow_line_nonempty: "reflow_line l \<noteq> []"
  by (simp add: reflow_line_def)

text \<open>
  Claim C8, as amended. The writer's normalization is a function of the text alone: every
  line whose right-stripped form ends in \<^verbatim>\<open>": {"\<close> is replaced by that right-stripped form
  without its last two characters (the space and the brace) and by a new line holding the
  brace behind the line's own indentation; every other line is emitted as it is; each
  emitted line ends in a line feed, and a text without lines gives a single line feed.
\<close>

theorem format_json_braces_lines:
  "format_json_braces text =
     (if splitlines text = [] then nl
      else emit_lines (concat (map reflow_line (splitlines text))))"
proof (cases "splitlines text")
  case Nil
  then show ?thesis by (simp add: format_json_braces_def)
next
  case (Cons l ls)
  have "concat (map reflow_line (splitlines text)) \<noteq> []"
    using Cons reflow_line_nonempty [of l] by simp
  then show ?thesis
    using Cons by (simp add: format_json_braces_def reflow_loop_acc py_join_nl)
qed

theorem format_json_braces_lines_witness:
  "format_json_braces manifest_sample =
     ''{'' @ nl @ ''    \"name\": \"quad\",'' @ nl @ ''    \"storage\":'' @ nl @ ''    {'' @ nl
     @ ''        \"format\": \"npy\"'' @ nl @ ''    },'' @ nl @ ''    \"attributes\":'' @ nl
     @ ''    {'' @ nl @ ''        \"Point\": {},'' @ nl @ ''    }'' @ nl @ ''}'' @ nl"
proof -
  have n: "splitlines manifest_sample \<noteq> []"
    by code_simp
  have l: "emit_lines (concat (map reflow_line (splitlines manifest_sample))) =
     ''{'' @ nl @ ''    \"name\": \"quad\",'' @ nl @ ''    \"storage\":'' @ nl @ ''    {'' @ nl
     @ ''        \"format\": \"npy\"'' @ nl @ ''    },'' @ nl @ ''    \"attributes\":'' @ nl
     @ ''    {'' @ nl @ ''        \"Point\": {},'' @ nl @ ''    }'' @ nl @ ''}'' @ nl"
    by code_simp
  from format_json_braces_lines [of manifest_sample] n l show ?thesis
    by (simp only: if_False)
qed

text \<open>The claim as it was stated, with only the brace removed, would keep the space after
  the colon; the code drops it.\<close>

theorem brace_only_removal_counterexample:
  "format_json_braces ''a: {'' = ''a:'' @ nl @ ''{'' @ nl
   \<and> emit_lines (concat (map reflow_line_claimed (splitlines ''a: {''))) = ''a: '' @ nl @ ''{'' @ nl
   \<and> format_json_braces ''a: {''
       \<noteq> emit_lines (concat (map reflow_line_claimed (splitlines ''a: {'')))"
proof -
  have a: "format_json_braces ''a: {'' = ''a:'' @ nl @ ''{'' @ nl"
    by code_simp
  have b: "emit_lines (concat (map reflow_line_claimed (splitlines ''a: {'')))
             = ''a: '' @ nl @ ''{'' @ nl"
    by code_simp
  from a b show ?thesis by simp
qed

section \<open>The format name\<close>

lemma resolve_format_binary: "resolve_format (Some ''binary'') = ''npy''"
  by (simp add: resolve_format_def lower_def)

lemma resolve_format_npy: "resolve_format (Some ''npy'') = ''npy''"
  by (simp add: resolve_format_def lower_def)

text \<open>
  Claim C3. When the format name, lowercased and with the alias resolved, is none of the
  names the exporter knows, \<^verbatim>\<open>export_geo_schema\<close> raises the unsupported-format error and
  the file system is the one it was called with: no directory made, no file written.
\<close>

theorem unsupported_format_no_io:
  "resolve_format format \<notin> set supported_formats \<Longrightarrow>
   export_geo_schema e hou node out_root name frame format f
     = (Inl (UnsupportedFormat (resolve_format format)), f)"
  by (simp add: export_geo_schema_def Let_def)

theorem unsupported_format_no_io_witness:
  "resolve_format (Some ''Dense-Binary'') \<notin> set supported_formats
   \<and> export_geo_schema env0 hou0 node0 [''out''] ''quad'' None (Some ''Dense-Binary'') fs0
       = (Inl (UnsupportedFormat ''dense-binary''), fs0)"
proof -
  have r: "resolve_format (Some ''Dense-Binary'') = ''dense-binary''"
    by (simp add: resolve_format_def lower_def)
  have n: "resolve_format (Some ''Dense-Binary'') \<notin> set supported_formats"
    by (simp add: r supported_formats_def)
  from unsupported_format_no_io [OF n, of env0 hou0 node0 "[''out'']" "''quad''" None fs0] n r
  show ?thesis by simp
qed

text \<open>
  Claim C4. For every scene, output root, name, frame and file system, the export called
  with the format name \<^verbatim>\<open>"binary"\<close> returns the same result and leaves the same file system
  as the export called with \<^verbatim>\<open>"npy"\<close>, the exporter's name of the dense binary format; the
  array writer \<^verbatim>\<open>_save_array\<close> treats the two names alike as well.
\<close>

theorem binary_alias:
  "export_geo_schema e hou node out_root name frame (Some ''binary'') f
     = export_geo_schema e hou node out_root name frame (Some ''npy'') f
   \<and> save_array e path_base arr ''binary'' f = save_array e path_base arr ''npy'' f"
proof
  show "export_geo_schema e hou node out_root name frame (Some ''binary'') f
     = export_geo_schema e hou node out_root name frame (Some ''npy'') f"
    unfolding export_geo_schema_def resolve_format_binary resolve_format_npy by (rule refl)
  show "save_array e path_base arr ''binary'' f = save_array e path_base arr ''npy'' f"
    by (cases arr) (simp_all add: save_array_def)
qed

theorem binary_alias_witness:
  "export_geo_schema env0 hou0 node0 [''out''] ''quad'' (Some 12) (Some ''binary'') fs0
     = export_geo_schema env0 hou0 node0 [''out''] ''quad'' (Some 12) (Some ''npy'') fs0
   \<and> fst (export_geo_schema env0 hou0 node0 [''out''] ''quad'' (Some 12) (Some ''binary'') fs0)
       = Inr [''out'', ''quad_F12'']
   \<and> read_file
         (snd (export_geo_schema env0 hou0 node0 [''out''] ''quad'' (Some 12) (Some ''binary'') fs0))
         [''out'', ''quad_F12'', ''Vertex'', ''nvertices_rle.npy'']
       = Some (Npy (NDArray Int32 [2] [NpInt 4, NpInt 1]))"
proof -
  have p: "fst (export_geo_schema env0 hou0 node0 [''out''] ''quad'' (Some 12) (Some ''npy'') fs0)
       = Inr [''out'', ''quad_F12'']"
    by code_simp
  have r: "read_file
         (snd (export_geo_schema env0 hou0 node0 [''out''] ''quad'' (Some 12) (Some ''npy'') fs0))
         [''out'', ''quad_F12'', ''Vertex'', ''nvertices_rle.npy'']
       = Some (Npy (NDArray Int32 [2] [NpInt 4, NpInt 1]))"
    by code_simp
  from binary_alias [of env0 hou0 node0 "[''out'']" "''quad''" "Some 12" fs0] p r
  show ?thesis by simp
qed

section \<open>The ascii serializer\<close>

lemma write_each_acc: "write_each g xs buf = buf @ concat (map g xs)"
  by (induction xs arbitrary: buf) simp_all

lemma write_each_lines: "write_each (\<lambda>x. g x @ nl) xs [] = emit_lines (map g xs)"
  by (simp add: write_each_acc emit_lines_def comp_def)

text \<open>
  Claim C6, as amended. For every array given to the ascii serializer, a rank-1 array is
  written one value per line and a rank-2 array one row per line, its columns joined by a
  space; the serializer raises the unsupported-rank error exactly when the rank is neither
  1 nor 2, which includes rank 0, and then leaves the file it opened empty.
\<close>

theorem save_ascii_by_rank:
  "save_ascii e p (Some arr) f =
     (if length (shape arr) = 1 then
        (Inr (), write_file p (Text (emit_lines (map (np_str e) (data arr)))) f)
      else if length (shape arr) = 2 then
        (Inr (), write_file p
           (Text (emit_lines (map (\<lambda>row. py_join '' '' (map (np_str e) row)) (rows arr)))) f)
      else (Inl (UnsupportedRank (length (shape arr))), write_file p (Text []) f))
   \<and> isl (fst (save_ascii e p (Some arr) f)) = (length (shape arr) \<notin> {1, 2})"
  by (simp add: save_ascii_def Let_def write_each_lines)

theorem save_ascii_by_rank_witness:
  "isl (fst (save_ascii env0 [''c.txt''] (Some (NDArray Int32 [1, 1, 1] [NpInt 1])) fs0))
   \<and> save_ascii env0 [''a.txt''] (Some (NDArray Int32 [3] [NpInt 4, NpInt 1, NpInt (- 2)])) fs0
       = (Inr (), \<lparr>fs_dirs = [],
                    fs_files = [([''a.txt''], Text (''4'' @ nl @ ''1'' @ nl @ ''-2'' @ nl))]\<rparr>)
   \<and> save_ascii env0 [''b.txt'']
         (Some (NDArray Int32 [2, 2] [NpInt 1, NpInt 2, NpInt 3, NpInt 4])) fs0
       = (Inr (), \<lparr>fs_dirs = [],
                    fs_files = [([''b.txt''], Text (''1 2'' @ nl @ ''3 4'' @ nl))]\<rparr>)"
proof -
  have c: "isl (fst (save_ascii env0 [''c.txt''] (Some (NDArray Int32 [1, 1, 1] [NpInt 1])) fs0))"
    using save_ascii_by_rank [of env0 "[''c.txt'']" "NDArray Int32 [1, 1, 1] [NpInt 1]" fs0]
    by simp
  have a: "save_ascii env0 [''a.txt''] (Some (NDArray Int32 [3] [NpInt 4, NpInt 1, NpInt (- 2)])) fs0
       = (Inr (), \<lparr>fs_dirs = [],
                    fs_files = [([''a.txt''], Text (''4'' @ nl @ ''1'' @ nl @ ''-2'' @ nl))]\<rparr>)"
    by code_simp
  have b: "save_ascii env0 [''b.txt'']
         (Some (NDArray Int32 [2, 2] [NpInt 1, NpInt 2, NpInt 3, NpInt 4])) fs0
       = (Inr (), \<lparr>fs_dirs = [],
                    fs_files = [([''b.txt''], Text (''1 2'' @ nl @ ''3 4'' @ nl))]\<rparr>)"
    by code_simp
  from c a b show ?thesis by blast
qed

text \<open>The claim as it was stated fails at a rank-0 array: the serializer raises although
  the rank is not greater than 2.\<close>

theorem save_ascii_rank0_counterexample:
  "isl (fst (save_ascii env0 [''s.txt''] (Some (NDArray Int32 [] [NpInt 5])) fs0))
   \<and> \<not> 2 < length (shape (NDArray Int32 [] [NpInt 5]))"
  by (simp add: save_ascii_def)

section \<open>The output root, the frame and the manifest\<close>

lemma read_write_same: "read_file (write_file p c f) p = Some c"
  by (simp add: read_file_def write_file_def update_Some_unfold)

lemma export_success_shape:
  assumes "fst (export_geo_schema e hou node out_root name frame format f) = Inr p"
  shows "\<exists>st. export_geo_schema e hou node out_root name frame format f =
            (let fin = export_finish e (resolve_format format = ''single'')
                    (export_root out_root name (resolve_frame hou frame))
                    (build_meta hou node name (resolve_frame hou frame) (resolve_format format)
                       (st_attrib_meta st)) st
             in (Inr (fst fin), snd fin))"
  using assms
  by (auto simp add: export_geo_schema_def Let_def split: if_splits prod.splits sum.splits)

text \<open>
  Claim C10. When the caller passes no frame and the export returns, the frame is the
  integer part of the host's current frame: the call is the call with that frame given,
  the output root is named \<^verbatim>\<open><name>_F<frame>\<close> with it, and the manifest, written to
  \<^verbatim>\<open>metadata.json\<close> or embedded in the archive, records the same value as its frame.
\<close>

theorem frame_none_is_current_frame:
  assumes "fst (export_geo_schema e hou node out_root name None format f) = Inr p"
  shows "export_geo_schema e hou node out_root name None format f
           = export_geo_schema e hou node out_root name (Some (py_int (hou_frame hou))) format f
         \<and> (\<exists>am so.
              meta_frame (build_meta hou node name (py_int (hou_frame hou)) (resolve_format format) am)
                = py_int (hou_frame hou)
              \<and> (if resolve_format format = ''single''
                 then p = with_suffix
                            (pjoin out_root (name @ ''_F'' @ str_int (py_int (hou_frame hou)))) ''.pkl''
                      \<and> read_file (snd (export_geo_schema e hou node out_root name None format f)) p
                          = Some (PickleObj
                              \<lparr>obj_domains = so,
                               obj_metadata = Some (build_meta hou node name (py_int (hou_frame hou))
                                                      (resolve_format format) am)\<rparr>)
                 else p = pjoin out_root (name @ ''_F'' @ str_int (py_int (hou_frame hou)))
                      \<and> read_file (snd (export_geo_schema e hou node out_root name None format f))
                            (pjoin p ''metadata.json'')
                          = Some (Text (format_json_braces (json_dumps e
                              (build_meta hou node name (py_int (hou_frame hou))
                                 (resolve_format format) am))))))"
    (is "?same \<and> ?used")
proof
  show ?same
    by (simp add: export_geo_schema_def resolve_frame_def)
next
  from export_success_shape [OF assms] obtain st where
    st: "export_geo_schema e hou node out_root name None format f =
            (let fin = export_finish e (resolve_format format = ''single'')
                    (export_root out_root name (resolve_frame hou None))
                    (build_meta hou node name (resolve_frame hou None) (resolve_format format)
                       (st_attrib_meta st)) st
             in (Inr (fst fin), snd fin))" by blast
  have fr: "resolve_frame hou None = py_int (hou_frame hou)"
    by (simp add: resolve_frame_def)
  have mf: "meta_frame (build_meta hou node name (py_int (hou_frame hou)) (resolve_format format)
              (st_attrib_meta st)) = py_int (hou_frame hou)"
    by (simp add: build_meta_def)
  show ?used
    apply (rule exI [of _ "st_attrib_meta st"])
    apply (rule exI [of _ "st_single_obj st"])
    using assms mf
    by (auto simp add: st fr Let_def export_finish_def export_root_def read_write_same)
qed


theorem frame_none_is_current_frame_witness:
  "fst (export_geo_schema env0 hou0 node0 [''out''] ''quad'' None (Some ''ascii'') fs0)
     = Inr [''out'', ''quad_F2'']
   \<and> py_int (hou_frame hou0) = 2
   \<and> (\<exists>am. read_file (snd (export_geo_schema env0 hou0 node0 [''out''] ''quad'' None
                              (Some ''ascii'') fs0))
               [''out'', ''quad_F2'', ''metadata.json'']
             = Some (Text (format_json_braces (json_dumps env0
                  (build_meta hou0 node0 ''quad'' 2 ''ascii'' am)))))"
proof -
  have p: "fst (export_geo_schema env0 hou0 node0 [''out''] ''quad'' None (Some ''ascii'') fs0)
     = Inr [''out'', ''quad_F2'']"
    by code_simp
  have fr: "py_int (hou_frame hou0) = 2"
    by (simp add: py_int_def hou0_def)
  have fm: "resolve_format (Some ''ascii'') = ''ascii''"
    by (simp add: resolve_format_def lower_def)
  from frame_none_is_current_frame [OF p] p fr fm show ?thesis
    by (auto simp add: pjoin_def)
qed

text \<open>Where the name holds no dot, \<^verbatim>\<open>with_suffix\<close> does append the archive extension to the
  root.\<close>

lemma digits_of_no_dot: "CHR ''.'' \<notin> set (digits_of n)"
proof (induction n rule: digits_of.induct)
  case (1 n)
  have d: "''0123456789'' ! k \<noteq> CHR ''.''" if "k < 10" for k
  proof -
    from that have "k \<in> {0, 1, 2, 3, 4, 5, 6, 7, 8, 9}" by auto
    then show ?thesis by auto
  qed
  show ?case
  proof (cases "n < 10")
    case True
    with d [of n] show ?thesis by (subst digits_of.simps) auto
  next
    case False
    with "1" d [of "n mod 10"] show ?thesis by (subst digits_of.simps) auto
  qed
qed

lemma suffix_of_no_dot:
  assumes "CHR ''.'' \<notin> set s"
  shows "suffix_of s = []"
proof -
  have tw: "takeWhile (\<lambda>c. c \<noteq> CHR ''.'') (rev s) = rev s"
    using assms by auto
  have "length (takeWhile (\<lambda>c. c \<noteq> CHR ''.'') (rev s)) = length s"
    by (simp only: tw length_rev)
  then show ?thesis
    unfolding suffix_of_def Let_def by simp
qed

lemma single_archive_appends_without_dot:
  assumes "CHR ''.'' \<notin> set name"
  shows "with_suffix (export_root out_root name frame) ''.pkl''
           = pjoin out_root (name @ ''_F'' @ str_int frame @ ''.pkl'')"
proof -
  have "CHR ''.'' \<notin> set (name @ ''_F'' @ str_int frame)"
    using assms by (simp add: str_int_def digits_of_no_dot)
  then have "suffix_of (name @ ''_F'' @ str_int frame) = []"
    by (rule suffix_of_no_dot)
  then show ?thesis
    by (simp add: with_suffix_def export_root_def pjoin_def name_with_suffix_def)
qed

text \<open>
  Claim C9 at a name that holds a dot. The single-archive layout returns the root with its
  text after the last dot replaced by \<^verbatim>\<open>.pkl\<close>: the frame number is lost, and the exports
  of two frames return the same archive path.
\<close>

theorem single_archive_drops_frame_of_dotted_name:
  "fst (export_geo_schema env0 hou0 node0 [''out''] ''quad.v2'' (Some 12) (Some ''single'') fs0)
     = Inr [''out'', ''quad.pkl'']
   \<and> export_root [''out''] ''quad.v2'' 12 = [''out'', ''quad.v2_F12'']
   \<and> fst (export_geo_schema env0 hou0 node0 [''out''] ''quad.v2'' (Some 13) (Some ''single'') fs0)
     = Inr [''out'', ''quad.pkl'']"
proof -
  have a: "fst (export_geo_schema env0 hou0 node0 [''out''] ''quad.v2'' (Some 12) (Some ''single'') fs0)
     = Inr [''out'', ''quad.pkl'']"
    by code_simp
  have b: "export_root [''out''] ''quad.v2'' 12 = [''out'', ''quad.v2_F12'']"
    by code_simp
  have c: "fst (export_geo_schema env0 hou0 node0 [''out''] ''quad.v2'' (Some 13) (Some ''single'') fs0)
     = Inr [''out'', ''quad.pkl'']"
    by code_simp
  from a b c show ?thesis by blast
qed

section \<open>String attributes\<close>



section \<open>An attribute of an unsupported type\<close>

lemma export_attribs_append:
  "export_attribs e geo fmt single folder elems (xs @ ys) st =
     (case export_attribs e geo fmt single folder elems xs st of
        (Inl err, st1) \<Rightarrow> (Inl err, st1)
      | (Inr u, st1) \<Rightarrow> export_attribs e geo fmt single folder elems ys st1)"
  by (induction xs arbitrary: st) (auto split: prod.splits sum.splits)

lemma export_domains_append:
  "export_domains e geo fmt single vertices (xs @ ys) st =
     (case export_domains e geo fmt single vertices xs st of
        (Inl err, st1) \<Rightarrow> (Inl err, st1)
      | (Inr u, st1) \<Rightarrow> export_domains e geo fmt single vertices ys st1)"
  by (induction xs arbitrary: st) (auto split: prod.splits sum.splits)

lemma export_attrib_bad_type:
  "attrib_dataType a \<notin> {AInt, AFloat, AString} \<Longrightarrow>
   export_attrib e geo fmt single folder elems a st
     = (Inl (UnsupportedAttribType (attrib_dataType a)), st)"
  by (simp add: export_attrib_def export_attrib_array_def attrib_dtype_def Let_def)

text \<open>
  Claim C7. Attributes are visited domain by domain in the provider's order. When one of
  them has a declared type other than Integer, Float or String and everything before it
  was exported, the export raises the unsupported-attribute-type error at that attribute,
  and the file system it leaves is the one reached right after the earlier attributes:
  the files written for them stay where they are.
\<close>

theorem unsupported_attrib_type_aborts:
  assumes "fmt = resolve_format format"
      and "fmt \<in> set supported_formats"
      and "geo = node_geometry node"
      and "rootp = export_root out_root name (resolve_frame hou frame)"
      and "st0 = init_state (fmt = ''single'') out_root rootp f"
      and "domain_dirs rootp = dpre @ (atype, folder) # dpost"
      and "get_attribs geo atype = pre @ a # post"
      and "attrib_dataType a \<notin> {AInt, AFloat, AString}"
      and "fst (export_domains e geo fmt (fmt = ''single'') (all_vertices geo) dpre st0) = Inr ()"
      and "fst (export_attribs e geo fmt (fmt = ''single'') folder
                  (domain_elems geo (all_vertices geo) atype) pre
                  (snd (export_domains e geo fmt (fmt = ''single'') (all_vertices geo) dpre st0)))
             = Inr ()"
  shows "export_geo_schema e hou node out_root name frame format f
           = (Inl (UnsupportedAttribType (attrib_dataType a)),
              st_fs (snd (export_attribs e geo fmt (fmt = ''single'') folder
                  (domain_elems geo (all_vertices geo) atype) pre
                  (snd (export_domains e geo fmt (fmt = ''single'') (all_vertices geo) dpre st0)))))"
proof -
  obtain st1 where d: "export_domains e geo fmt (fmt = ''single'') (all_vertices geo) dpre st0
                         = (Inr (), st1)"
    using assms(9) by (cases "export_domains e geo fmt (fmt = ''single'') (all_vertices geo) dpre st0") auto
  obtain st2 where p: "export_attribs e geo fmt (fmt = ''single'') folder
                  (domain_elems geo (all_vertices geo) atype) pre st1 = (Inr (), st2)"
    using assms(10) d
    by (cases "export_attribs e geo fmt (fmt = ''single'') folder
                  (domain_elems geo (all_vertices geo) atype) pre st1") auto
  have at: "export_attribs e geo fmt (fmt = ''single'') folder
              (domain_elems geo (all_vertices geo) atype) (pre @ a # post) st1
            = (Inl (UnsupportedAttribType (attrib_dataType a)), st2)"
    by (simp add: export_attribs_append p export_attrib_bad_type [OF assms(8)])
  have dm: "export_domains e geo fmt (fmt = ''single'') (all_vertices geo)
              (dpre @ (atype, folder) # dpost) st0
            = (Inl (UnsupportedAttribType (attrib_dataType a)), st2)"
    by (simp add: export_domains_append d assms(7) at)
  show ?thesis
    using assms(2)
    by (simp add: export_geo_schema_def Let_def assms(1,3,4,5) [symmetric] assms(6) dm d p)
qed


theorem unsupported_attrib_type_aborts_witness:
  "fst (export_geo_schema env0 hou0 node1 [''out''] ''quad'' (Some 12) (Some ''pickle'') fs0)
     = Inl (UnsupportedAttribType ADict)
   \<and> read_file (snd (export_geo_schema env0 hou0 node1 [''out''] ''quad'' (Some 12)
                       (Some ''pickle'') fs0))
         [''out'', ''quad_F12'', ''Detail'', ''id.pkl'']
       = Some (PickleArr (NDArray Int32 [1] [NpInt 0]))
   \<and> read_file (snd (export_geo_schema env0 hou0 node1 [''out''] ''quad'' (Some 12)
                       (Some ''pickle'') fs0))
         [''out'', ''quad_F12'', ''Primitive'', ''id.pkl'']
       = Some (PickleArr (NDArray Int32 [1] [NpInt 7]))"
proof -
  have h1: "''pickle'' = resolve_format (Some ''pickle'')"
    by (simp add: resolve_format_def lower_def)
  have h2: "''pickle'' \<in> set supported_formats"
    by (simp add: supported_formats_def)
  have h3: "geo1 = node_geometry node1"
    by (simp add: node1_def)
  have h4: "[''out'', ''quad_F12''] = export_root [''out''] ''quad'' (resolve_frame hou0 (Some 12))"
    by code_simp
  have h6: "domain_dirs [''out'', ''quad_F12'']
              = [(Point, [''out'', ''quad_F12'', ''Point'']),
                 (Vertex, [''out'', ''quad_F12'', ''Vertex'']),
                 (Prim, [''out'', ''quad_F12'', ''Primitive''])]
                @ (Global, [''out'', ''quad_F12'', ''Detail'']) # []"
    by (simp add: domain_dirs_def pjoin_def)
  have h7: "get_attribs geo1 Global = [id_attrib] @ dict_attrib # []"
    by (simp add: get_attribs_def geo1_def)
  have h8: "attrib_dataType dict_attrib \<notin> {AInt, AFloat, AString}"
    by (simp add: dict_attrib_def)
  have h9: "fst (export_domains env0 geo1 ''pickle'' (''pickle'' = ''single'') (all_vertices geo1)
                   [(Point, [''out'', ''quad_F12'', ''Point'']),
                    (Vertex, [''out'', ''quad_F12'', ''Vertex'']),
                    (Prim, [''out'', ''quad_F12'', ''Primitive''])]
                   (init_state (''pickle'' = ''single'') [''out''] [''out'', ''quad_F12''] fs0))
              = Inr ()"
    by code_simp
  have h10: "fst (export_attribs env0 geo1 ''pickle'' (''pickle'' = ''single'')
                    [''out'', ''quad_F12'', ''Detail'']
                    (domain_elems geo1 (all_vertices geo1) Global) [id_attrib]
                    (snd (export_domains env0 geo1 ''pickle'' (''pickle'' = ''single'')
                            (all_vertices geo1)
                            [(Point, [''out'', ''quad_F12'', ''Point'']),
                             (Vertex, [''out'', ''quad_F12'', ''Vertex'']),
                             (Prim, [''out'', ''quad_F12'', ''Primitive''])]
                            (init_state (''pickle'' = ''single'') [''out'']
                               [''out'', ''quad_F12''] fs0))))
              = Inr ()"
    by code_simp
  have a: "fst (export_geo_schema env0 hou0 node1 [''out''] ''quad'' (Some 12) (Some ''pickle'') fs0)
     = Inl (UnsupportedAttribType ADict)"
    using unsupported_attrib_type_aborts [OF h1 h2 h3 h4 refl h6 h7 h8 h9 h10]
    by (simp add: dict_attrib_def)
  have b: "read_file (snd (export_geo_schema env0 hou0 node1 [''out''] ''quad'' (Some 12)
                       (Some ''pickle'') fs0))
         [''out'', ''quad_F12'', ''Detail'', ''id.pkl'']
       = Some (PickleArr (NDArray Int32 [1] [NpInt 0]))"
    by code_simp
  have c: "read_file (snd (export_geo_schema env0 hou0 node1 [''out''] ''quad'' (Some 12)
                       (Some ''pickle'') fs0))
         [''out'', ''quad_F12'', ''Primitive'', ''id.pkl'']
       = Some (PickleArr (NDArray Int32 [1] [NpInt 7]))"
    by code_simp
  from a b c show ?thesis by blast
qed

section \<open>The shape of an exported array\<close>

lemma shape_of_scalar: "is_scalar v \<Longrightarrow> shape_of v = Some []"
  by (cases v) (simp_all add: is_scalar_def)

lemma leaves_scalar: "is_scalar v \<Longrightarrow> leaves v = [v]"
  by (cases v) (simp_all add: is_scalar_def)

lemma shape_of_scalars:
  "list_all is_scalar vs \<Longrightarrow> shape_of (PTuple vs) = Some [length vs]"
  by (cases vs) (auto simp add: shape_of_scalar list_all_iff)

lemma leaves_scalars: "list_all is_scalar vs \<Longrightarrow> leaves (PTuple vs) = vs"
  by (induction vs) (simp_all add: leaves_scalar)

lemma those_map_total:
  "list_all (\<lambda>v. g v \<noteq> None) vs \<Longrightarrow> \<exists>d. those (map g vs) = Some d \<and> length d = length vs"
  by (induction vs) (auto split: option.splits)

lemma np_asarray_scalars:
  assumes "list_all (scalar_ok e dt) vs"
  shows "\<exists>d. np_asarray e dt vs = Inr (NDArray dt [length vs] d) \<and> length d = length vs"
proof -
  have s: "list_all is_scalar vs"
    using assms by (simp add: list_all_iff scalar_ok_def)
  have c: "list_all (\<lambda>v. np_convert e dt v \<noteq> None) vs"
    using assms by (simp add: list_all_iff scalar_ok_def)
  from those_map_total [OF c] obtain d where
    "those (map (np_convert e dt) vs) = Some d" "length d = length vs" by blast
  then show ?thesis
    by (simp add: np_asarray_def shape_of_scalars [OF s] leaves_scalars [OF s]
          del: shape_of.simps leaves.simps)
qed


lemma shape_of_row:
  "value_ok e dt w v \<Longrightarrow> w \<noteq> 1 \<Longrightarrow> shape_of v = Some [w]"
  by (cases v) (auto simp add: value_ok_def scalar_ok_def shape_of_scalars list_all_iff
                  simp del: shape_of.simps)

lemma leaves_row:
  "value_ok e dt w v \<Longrightarrow> w \<noteq> 1 \<Longrightarrow>
   list_all (scalar_ok e dt) (leaves v) \<and> length (leaves v) = w"
  by (cases v) (auto simp add: value_ok_def scalar_ok_def leaves_scalars list_all_iff
                  simp del: leaves.simps)

lemma shape_of_rows:
  assumes "list_all (value_ok e dt w) vs" and "w \<noteq> 1" and "vs \<noteq> []"
  shows "shape_of (PTuple vs) = Some [length vs, w]"
proof -
  obtain x rest where vs: "vs = x # rest" using assms(3) by (cases vs) auto
  have "\<forall>v \<in> set vs. shape_of v = Some [w]"
    using assms(1,2) by (auto simp add: list_all_iff shape_of_row)
  then show ?thesis by (simp add: vs list_all_iff)
qed

lemma leaves_rows:
  assumes "list_all (value_ok e dt w) vs" and "w \<noteq> 1"
  shows "list_all (scalar_ok e dt) (leaves (PTuple vs))
         \<and> length (leaves (PTuple vs)) = length vs * w"
  using assms
proof (induction vs)
  case Nil
  then show ?case by simp
next
  case (Cons v vs)
  from Cons.prems leaves_row [of e dt w v]
  have "list_all (scalar_ok e dt) (leaves v) \<and> length (leaves v) = w" by simp
  with Cons show ?case by simp
qed

lemma np_asarray_rows:
  assumes "list_all (value_ok e dt w) vs" and "w \<noteq> 1"
  shows "\<exists>d. np_asarray e dt vs
               = Inr (NDArray dt (if vs = [] then [0] else [length vs, w]) d)
             \<and> length d = length vs * w"
proof -
  have c: "list_all (\<lambda>v. np_convert e dt v \<noteq> None) (leaves (PTuple vs))"
    using leaves_rows [OF assms] by (simp add: list_all_iff scalar_ok_def)
  from those_map_total [OF c] leaves_rows [OF assms] obtain d where
    d: "those (map (np_convert e dt) (leaves (PTuple vs))) = Some d" "length d = length vs * w"
    by auto
  show ?thesis
  proof (cases "vs = []")
    case True
    then show ?thesis by (simp add: np_asarray_def)
  next
    case False
    from shape_of_rows [OF assms False] d False show ?thesis
      by (simp add: np_asarray_def del: shape_of.simps leaves.simps)
  qed
qed

lemma np_asarray_ints:
  "list_all int32 xs \<Longrightarrow> np_asarray e Int32 (map PInt xs) = Inr (NDArray Int32 [length xs] (map NpInt xs))"
proof -
  assume a: "list_all int32 xs"
  have s: "list_all is_scalar (map PInt xs)"
    by (simp add: list_all_iff is_scalar_def)
  have "those (map (np_convert e Int32) (map PInt xs)) = Some (map NpInt xs)"
    using a by (induction xs) (simp_all add: np_convert_def int32_def)
  then show ?thesis
    using shape_of_scalars [OF s] leaves_scalars [OF s]
    by (simp add: np_asarray_def del: shape_of.simps leaves.simps)
qed

text \<open>
  Claim C2, as amended. For an Integer or Float attribute of declared width \<open>w\<close> whose
  accessor returns, for each of the \<open>n\<close> live elements, a scalar when \<open>w = 1\<close> and a tuple of
  \<open>w\<close> scalars when \<open>w > 1\<close>, every scalar one that numpy accepts for the element type,
  \<^verbatim>\<open>_export_attrib_array\<close> returns a numeric array of the matching element type with
  \<open>n * w\<close> elements, of shape \<open>(n, w)\<close> when \<open>w > 1\<close> and of shape \<open>(n)\<close> when \<open>w = 1\<close>, the
  width being the declared one; an array built from a flat list of integers, as the three
  topology arrays are, has the rank-1 shape as well.
\<close>

theorem export_attrib_array_shape:
  assumes "attrib_dataType a = AInt \<and> dt = Int32 \<or> attrib_dataType a = AFloat \<and> dt = Float32"
      and "0 < attrib_size a"
      and "list_all (value_ok e dt (attrib_size a))
             (map (\<lambda>el. geo_attribValue geo el (attrib_name a)) elems)"
  shows "(\<exists>d. export_attrib_array e geo elems a
               = Inr (Array_kind (NDArray dt
                   (if 1 < attrib_size a then [length elems, attrib_size a] else [length elems]) d))
             \<and> length d = length elems * attrib_size a)
         \<and> (list_all int32 xs \<longrightarrow>
              np_asarray e Int32 (map PInt xs) = Inr (NDArray Int32 [length xs] (map NpInt xs)))"
proof
  let ?vs = "map (\<lambda>el. geo_attribValue geo el (attrib_name a)) elems"
  have ty: "attrib_dataType a \<noteq> AString" and dt: "attrib_dtype a = Inr (Some dt)"
    using assms(1) by (auto simp add: attrib_dtype_def)
  show "\<exists>d. export_attrib_array e geo elems a
               = Inr (Array_kind (NDArray dt
                   (if 1 < attrib_size a then [length elems, attrib_size a] else [length elems]) d))
             \<and> length d = length elems * attrib_size a"
  proof (cases "attrib_size a = 1")
    case True
    have "list_all (scalar_ok e dt) ?vs"
      using assms(3) True by (simp add: value_ok_def list_all_iff)
    from np_asarray_scalars [OF this] obtain d where
      "np_asarray e dt ?vs = Inr (NDArray dt [length ?vs] d)" "length d = length ?vs" by blast
    then show ?thesis
      using True ty dt by (simp add: export_attrib_array_def Let_def)
  next
    case False
    then have w: "1 < attrib_size a" using assms(2) by arith
    from np_asarray_rows [OF assms(3) False] obtain d where
      d: "np_asarray e dt ?vs
            = Inr (NDArray dt (if ?vs = [] then [0] else [length ?vs, attrib_size a]) d)"
         "length d = length ?vs * attrib_size a" by blast
    show ?thesis
      using w ty dt d by (simp add: export_attrib_array_def Let_def reshape2_def)
  qed
next
  show "list_all int32 xs \<longrightarrow>
          np_asarray e Int32 (map PInt xs) = Inr (NDArray Int32 [length xs] (map NpInt xs))"
    by (simp add: np_asarray_ints)
qed

theorem export_attrib_array_shape_witness:
  "(\<exists>d. export_attrib_array env0 geo0 (map PointElem [0, 1, 2, 3]) position_attrib
          = Inr (Array_kind (NDArray Float32 [4, 3] d)) \<and> length d = 12)
   \<and> (\<exists>d. export_attrib_array env0 geo0 [PrimElem quad] id_attrib
          = Inr (Array_kind (NDArray Int32 [1] d)) \<and> length d = 1)
   \<and> np_asarray env0 Int32 (map PInt [4, 1]) = Inr (NDArray Int32 [2] [NpInt 4, NpInt 1])"
proof -
  have p1: "attrib_dataType position_attrib = AInt \<and> Float32 = Int32
            \<or> attrib_dataType position_attrib = AFloat \<and> Float32 = Float32"
    by (simp add: position_attrib_def)
  have p2: "0 < attrib_size position_attrib"
    by (simp add: position_attrib_def)
  have p3: "list_all (value_ok env0 Float32 (attrib_size position_attrib))
             (map (\<lambda>el. geo_attribValue geo0 el (attrib_name position_attrib))
                (map PointElem [0, 1, 2, 3]))"
    by code_simp
  have i1: "attrib_dataType id_attrib = AInt \<and> Int32 = Int32
            \<or> attrib_dataType id_attrib = AFloat \<and> Int32 = Float32"
    by (simp add: id_attrib_def)
  have i2: "0 < attrib_size id_attrib"
    by (simp add: id_attrib_def)
  have i3: "list_all (value_ok env0 Int32 (attrib_size id_attrib))
             (map (\<lambda>el. geo_attribValue geo0 el (attrib_name id_attrib)) [PrimElem quad])"
    by code_simp
  have x: "list_all int32 [4, 1]"
    by (simp add: int32_def)
  from export_attrib_array_shape [OF p1 p2 p3, of "[4, 1]"]
       export_attrib_array_shape [OF i1 i2 i3, of "[4, 1]"] x
  show ?thesis
    by (simp add: position_attrib_def id_attrib_def eval_nat_numeral)
qed

text \<open>The claim as it was stated, for every attribute, fails where the accessor of a
  width-1 attribute returns a tuple: the array is not reshaped for width 1, so its
  shape follows the values and is \<open>(1, 2)\<close> for one element, not \<open>(1)\<close>.\<close>

theorem width_one_shape_counterexample:
  "attrib_dataType pair_attrib = AInt
   \<and> attrib_size pair_attrib = 1
   \<and> export_attrib_array env0 geo2 [DetailElem] pair_attrib
       = Inr (Array_kind (NDArray Int32 [1, 2] [NpInt 1, NpInt 2]))
   \<and> shape (NDArray Int32 [1, 2] [NpInt 1, NpInt 2]) \<noteq> [length [DetailElem]]"
proof -
  have a: "export_attrib_array env0 geo2 [DetailElem] pair_attrib
       = Inr (Array_kind (NDArray Int32 [1, 2] [NpInt 1, NpInt 2]))"
    by code_simp
  from a show ?thesis by (simp add: pair_attrib_def)
qed

end
